theory Spec2Isabelle
  imports Main "HOL-Library.Sublist"
begin

section \<open>Data model (app.py, lines 16-50)\<close>

text \<open>
  Python strings are modelled as \<open>string\<close> (lists of 8-bit characters, code points
  0 to 255). Every field of the dataclass \<open>Business\<close> defaults to \<open>None\<close>, so each
  field is a \<open>string option\<close>.
\<close>

record business =
  name :: "string option"
  address :: "string option"
  domain :: "string option"
  website :: "string option"
  phone_number :: "string option"
  email :: "string option"
  category :: "string option"
  location :: "string option"

text \<open>Python truthiness of an optional string: \<open>None\<close> and \<open>""\<close> are both false.\<close>

fun truthy :: "string option \<Rightarrow> bool" where
  "truthy None = False"
| "truthy (Some s) = (s \<noteq> [])"

text \<open>\<open>x or ""\<close> for an optional string \<open>x\<close>.\<close>

fun or_empty :: "string option \<Rightarrow> string" where
  "or_empty None = []"
| "or_empty (Some s) = s"

text \<open>
  \<open>Business.__hash__\<close> builds the list \<open>hash_fields\<close> and returns the built-in hash
  of the tuple made from it. \<open>hash_fields\<close> is that list (the Identity Key).
\<close>

definition hash_fields :: "business \<Rightarrow> string list" where
  "hash_fields b =
     [or_empty (name b)]
     @ (if truthy (domain b) then [''domain:'' @ or_empty (domain b)] else [])
     @ (if truthy (website b) then [''website:'' @ or_empty (website b)] else [])
     @ (if truthy (phone_number b) then [''phone:'' @ or_empty (phone_number b)] else [])"

text \<open>
  Python's built-in \<open>hash\<close> on tuples of strings is not part of the repository (and is
  salted per process), so it is a parameter \<open>h\<close> of the model, with an arbitrary type
  of hash values.
\<close>

definition business_hash :: "(string list \<Rightarrow> 'v) \<Rightarrow> business \<Rightarrow> 'v" where
  "business_hash h b = h (hash_fields b)"

record 'v business_list_state =
  business_list :: "business list"
  seen_businesses :: "'v set"

text \<open>\<open>BusinessList()\<close>: both containers start empty.\<close>

definition new_business_list :: "'v business_list_state" where
  "new_business_list = \<lparr>business_list = [], seen_businesses = {}\<rparr>"

definition add_business ::
  "(string list \<Rightarrow> 'v) \<Rightarrow> business \<Rightarrow> 'v business_list_state \<Rightarrow> 'v business_list_state" where
  "add_business h b st =
     (if business_hash h b \<notin> seen_businesses st
      then \<lparr>business_list = business_list st @ [b],
            seen_businesses = insert (business_hash h b) (seen_businesses st)\<rparr>
      else st)"

text \<open>Adding a sequence of records, one after the other.\<close>

definition add_all ::
  "(string list \<Rightarrow> 'v) \<Rightarrow> business list \<Rightarrow> 'v business_list_state \<Rightarrow> 'v business_list_state" where
  "add_all h bs st = foldl (\<lambda>s b. add_business h b s) st bs"


section \<open>Helpers: whitespace trimming and \<open>str.split\<close>\<close>

text \<open>
  \<open>str.strip()\<close> removes leading and trailing whitespace. Among the code points 0 to
  255 Python's whitespace characters are 9 to 13, 28 to 32, 133 and 160.
\<close>

definition is_space :: "char \<Rightarrow> bool" where
  "is_space c =
     (let n = (of_char c :: nat)
      in (9 \<le> n \<and> n \<le> 13) \<or> (28 \<le> n \<and> n \<le> 32) \<or> n = 133 \<or> n = 160)"

definition strip :: "string \<Rightarrow> string" where
  "strip s = rev (dropWhile is_space (rev (dropWhile is_space s)))"

text \<open>\<open>s.find(sep)\<close>: index of the leftmost occurrence of \<open>sep\<close> in \<open>s\<close>.\<close>

fun find_sub :: "string \<Rightarrow> string \<Rightarrow> nat option" where
  "find_sub sep [] = (if sep = [] then Some 0 else None)"
| "find_sub sep (c # cs) =
     (if prefix sep (c # cs) then Some 0 else map_option Suc (find_sub sep cs))"

text \<open>
  \<open>s.split(sep)\<close> without a limit: cut at the leftmost occurrence, continue behind
  it, until no occurrence is left. Python raises ValueError for an empty separator;
  the only call of the program passes the literal \<open>" in "\<close>, and the model returns
  the unsplit string there.
\<close>

function py_split :: "string \<Rightarrow> string \<Rightarrow> string list" where
  "py_split sep s =
     (if sep = [] then [s]
      else (case find_sub sep s of
              None \<Rightarrow> [s]
            | Some i \<Rightarrow> take i s # py_split sep (drop (i + length sep) s)))"
  by pat_completeness auto
termination
proof (relation "measure (\<lambda>(sep, s). length s)")
  show "wf (measure (\<lambda>(sep, s). length s))" by simp
next
  fix sep s :: string and i :: nat
  assume "sep \<noteq> []" and "find_sub sep s = Some i"
  then have "s \<noteq> []" by (cases s) auto
  moreover from \<open>sep \<noteq> []\<close> have "0 < i + length sep" by simp
  ultimately show "((sep, drop (i + length sep) s), (sep, s)) \<in> measure (\<lambda>(sep, s). length s)"
    by (cases s) auto
qed

declare py_split.simps [simp del]

section \<open>Query Parser (app.py, lines 113-116)\<close>

definition parse_query :: "string \<Rightarrow> string \<times> string" where
  "parse_query query =
     (let parts = map strip (py_split '' in '' query);
          category = (case parts of [] \<Rightarrow> query | p # _ \<Rightarrow> p);
          location = (if length parts > 1 then parts ! 1 else [])
      in (category, location))"

section \<open>The email pattern (app.py, line 75)\<close>

text \<open>
  \<open>EMAIL_REGEX\<close> is a sequence of quantified character classes. A class is a list of
  ranges and literal characters, as written between the brackets; a quantifier is
  "exactly once" or \<open>{m,}\<close> (\<open>+\<close> is \<open>{1,}\<close>).
\<close>

datatype atom = Rng char char | Lit char

type_synonym char_class = "atom list"

fun atom_ok :: "char \<Rightarrow> atom \<Rightarrow> bool" where
  "atom_ok c (Rng lo hi) = ((of_char lo :: nat) \<le> of_char c \<and> (of_char c :: nat) \<le> of_char hi)"
| "atom_ok c (Lit x) = (c = x)"

definition in_class :: "char_class \<Rightarrow> char \<Rightarrow> bool" where
  "in_class cl c = list_ex (atom_ok c) cl"

datatype quant = Once | AtLeast nat

type_synonym regex = "(char_class \<times> quant) list"

definition local_class :: char_class where
  "local_class = [Rng CHR ''a'' CHR ''z'', Rng CHR ''A'' CHR ''Z'', Rng CHR ''0'' CHR ''9'',
                  Lit CHR ''.'', Lit CHR ''_'', Lit CHR ''%'', Lit CHR ''+'', Lit CHR ''-'']"

definition domain_class :: char_class where
  "domain_class = [Rng CHR ''a'' CHR ''z'', Rng CHR ''A'' CHR ''Z'', Rng CHR ''0'' CHR ''9'',
                   Lit CHR ''.'', Lit CHR ''-'']"

definition alpha_class :: char_class where
  "alpha_class = [Rng CHR ''a'' CHR ''z'', Rng CHR ''A'' CHR ''Z'']"

definition EMAIL_REGEX :: regex where
  "EMAIL_REGEX =
     [(local_class, AtLeast 1), ([Lit CHR ''@''], Once), (domain_class, AtLeast 1),
      ([Lit CHR ''.''], Once), (alpha_class, AtLeast 2)]"

text \<open>The first candidate, in the given order, for which \<open>f\<close> succeeds.\<close>

primrec first_some :: "(nat \<Rightarrow> nat option) \<Rightarrow> nat list \<Rightarrow> nat option" where
  "first_some f [] = None"
| "first_some f (k # ks) = (case f k of Some r \<Rightarrow> Some r | None \<Rightarrow> first_some f ks)"

text \<open>
  The backtracking matcher of Python's \<open>re\<close>, anchored at the start of \<open>s\<close>: the
  length of the match found, if any. A greedy quantifier \<open>{m,}\<close> first takes the
  longest run of characters of its class and gives characters back one at a time,
  down to \<open>m\<close>, until the rest of the pattern matches.
\<close>

fun match_here :: "regex \<Rightarrow> string \<Rightarrow> nat option" where
  "match_here [] s = Some 0"
| "match_here ((cl, Once) # r) s =
     (case s of
        [] \<Rightarrow> None
      | c # cs \<Rightarrow> if in_class cl c then map_option Suc (match_here r cs) else None)"
| "match_here ((cl, AtLeast m) # r) s =
     first_some (\<lambda>k. map_option (\<lambda>n. k + n) (match_here r (drop k s)))
       (rev [m ..< Suc (length (takeWhile (in_class cl) s))])"

text \<open>
  \<open>matches = EMAIL_REGEX.findall(html)\<close> followed by \<open>matches[0]\<close> when the list is
  not empty: the first element of \<open>findall\<close> is the match at the leftmost position
  where the matcher succeeds. \<open>None\<close> stands for the empty list.
\<close>

fun findall_first :: "regex \<Rightarrow> string \<Rightarrow> string option" where
  "findall_first r [] = map_option (\<lambda>n. []) (match_here r [])"
| "findall_first r (c # cs) =
     (case match_here r (c # cs) of
        Some n \<Rightarrow> Some (take n (c # cs))
      | None \<Rightarrow> findall_first r cs)"


section \<open>Exceptions and the browser as an environment\<close>

datatype exn = PWTimeoutError | OtherException string | RuntimeError string

text \<open>
  What the website reached by one call of \<open>scrape_email_from_website\<close> does: for
  each Playwright call of the function, the exception it raises (if any), and the
  markup \<open>page.content()\<close> returns.
\<close>

record site =
  new_page_error :: "exn option"
  goto_error :: "exn option"
  load_state_error :: "exn option"
  page_content :: "exn + string"
  page_close_error :: "exn option"

section \<open>Email Discovery (app.py, lines 87-106)\<close>

text \<open>
  \<open>new_page()\<close> is called before the \<open>try\<close>, \<open>page.close()\<close> in the \<open>finally\<close>:
  an exception of either leaves the function. Inside the \<open>try\<close>, a timeout of
  \<open>wait_for_load_state\<close> is passed over and every other exception ends the \<open>try\<close>
  with \<open>email\<close> still empty.
\<close>

definition email_in_try :: "site \<Rightarrow> string" where
  "email_in_try st =
     (case goto_error st of
        Some e \<Rightarrow> []
      | None \<Rightarrow>
          (case load_state_error st of
             Some (OtherException m) \<Rightarrow> []
           | Some (RuntimeError m) \<Rightarrow> []
           | _ \<Rightarrow>
               (case page_content st of
                  Inl e \<Rightarrow> []
                | Inr html \<Rightarrow>
                    (case findall_first EMAIL_REGEX html of
                       Some m \<Rightarrow> m
                     | None \<Rightarrow> []))))"

definition scrape_email_from_website :: "(string \<Rightarrow> site) \<Rightarrow> string \<Rightarrow> exn + string" where
  "scrape_email_from_website web url =
     (case new_page_error (web url) of
        Some e \<Rightarrow> Inl e
      | None \<Rightarrow>
          (let email = email_in_try (web url)
           in (case page_close_error (web url) of
                 Some e \<Rightarrow> Inl e
               | None \<Rightarrow> Inr email)))"

section \<open>Field Extractor (app.py, lines 77-84)\<close>

text \<open>
  A page answers a selector with an exception (\<open>locator\<close> or \<open>count\<close> raising) or with
  the list of matching elements; reading the text of an element (\<open>inner_text\<close>)
  raises or returns the text.
\<close>

type_synonym page = "string \<Rightarrow> exn + (exn + string) list"

definition safe_text :: "page \<Rightarrow> string \<Rightarrow> string" where
  "safe_text pg selector =
     (case pg selector of
        Inl e \<Rightarrow> []
      | Inr [] \<Rightarrow> []
      | Inr (Inl e # rest) \<Rightarrow> []
      | Inr (Inr t # rest) \<Rightarrow> strip t)"

text \<open>
  The reading of the specification in which empty elements are skipped: the trimmed
  text of the first matching element whose trimmed text is not empty.
\<close>

fun spec_first_nonempty :: "(exn + string) list \<Rightarrow> string" where
  "spec_first_nonempty [] = []"
| "spec_first_nonempty (Inl e # rest) = spec_first_nonempty rest"
| "spec_first_nonempty (Inr t # rest) =
     (if strip t \<noteq> [] then strip t else spec_first_nonempty rest)"


section \<open>The results page and the Listing Discovery Loop (app.py, lines 118-158)\<close>

text \<open>
  The browser is an environment that fixes, for every Playwright call of the pipeline,
  whether it raises and what it returns. Handles of page elements have type \<open>'h\<close>.
  \<^item> \<open>setup_error\<close>: launching the browser, opening the map and submitting the query
    (lines 119 to 132); none of these calls is inside a \<open>try\<close>.
  \<^item> The hover of lines 135 to 138 is inside \<open>try ... except Exception: pass\<close>; its
    outcome changes nothing and is not part of the environment.
  \<^item> \<open>scroll_error k\<close>: the exception raised by the wheel or the count of the \<open>k\<close>-th
    scroll iteration; \<open>anchors_after k\<close>: the anchors that the count of iteration \<open>k\<close>
    sees (line 146).
  \<^item> \<open>snapshot_anchors k\<close>: the anchors that \<open>.all()\<close> returns (line 153) when the
    loop has ended after \<open>k\<close> iterations. This is a second query of the live page,
    independent of the last count: anchors may appear in between.
    \<open>snapshot_error\<close>: \<open>.all()\<close> raising; \<open>parent\<close>: the listing element of an
    anchor (line 158).
  \<^item> \<open>click_error\<close>, \<open>detail\<close>, \<open>web\<close>: clicking a listing, the detail view it opens
    and the websites visited while it is processed.
  \<^item> \<open>export\<close>: the file writer (lines 52 to 69 and 206 to 210: pandas and the file
    system), from the file type, the query and the records to the path or an exception.
  \<^item> \<open>browser_close_error\<close>: \<open>browser.close()\<close> raising.
\<close>

record 'h env =
  setup_error :: "exn option"
  scroll_error :: "nat \<Rightarrow> exn option"
  anchors_after :: "nat \<Rightarrow> 'h list"
  snapshot_anchors :: "nat \<Rightarrow> 'h list"
  snapshot_error :: "exn option"
  parent :: "'h \<Rightarrow> 'h"
  click_error :: "'h \<Rightarrow> exn option"
  detail :: "'h \<Rightarrow> page"
  web :: "'h \<Rightarrow> string \<Rightarrow> site"
  export :: "string \<Rightarrow> string \<Rightarrow> business list \<Rightarrow> exn + string"
  browser_close_error :: "exn option"

text \<open>How the scroll loop ended: one of its two \<open>break\<close>s, or \<open>range(50)\<close> ran out.\<close>

datatype halt = ReachedTotal | Stalled | CapReached

definition max_scroll_loops :: nat where
  "max_scroll_loops = 50"

text \<open>
  \<open>scroll_loop env total_n n k previously_counted\<close> (\<open>total_n\<close> is the source's \<open>total\<close>): \<open>n\<close> iterations are left, \<open>k\<close> are
  done. The result is the way the loop ended and the number of iterations executed.
\<close>

fun scroll_loop :: "'h env \<Rightarrow> int \<Rightarrow> nat \<Rightarrow> nat \<Rightarrow> int \<Rightarrow> exn + (halt \<times> nat)" where
  "scroll_loop env total_n 0 k previously_counted = Inr (CapReached, k)"
| "scroll_loop env total_n (Suc n) k previously_counted =
     (case scroll_error env (Suc k) of
        Some e \<Rightarrow> Inl e
      | None \<Rightarrow>
          (let count_now = int (length (anchors_after env (Suc k)))
           in if count_now \<ge> total_n then Inr (ReachedTotal, Suc k)
              else if count_now = previously_counted then Inr (Stalled, Suc k)
              else scroll_loop env total_n n (Suc k) count_now))"

text \<open>\<open>xs[:total]\<close>; a negative bound counts from the end.\<close>

definition slice_to :: "int \<Rightarrow> 'a list \<Rightarrow> 'a list" where
  "slice_to total_n xs =
     (if total_n \<ge> 0 then take (nat total_n) xs else take (nat (int (length xs) + total_n)) xs)"

section \<open>Record Extractor (app.py, lines 161-204)\<close>

definition name_sel_primary :: string where
  "name_sel_primary = ''h1.DUwDvf''"

definition name_sel_fallback :: string where
  "name_sel_fallback = ''h1.fontHeadlineLarge''"

definition address_xpath :: string where
  "address_xpath = ''//button[@data-item-id=\"address\"]//div[contains(@class, \"fontBodyMedium\")]''"

definition website_xpath :: string where
  "website_xpath = ''//a[@data-item-id=\"authority\"]//div[contains(@class, \"fontBodyMedium\")]''"

definition phone_xpath :: string where
  "phone_xpath = ''//button[starts-with(@data-item-id, \"phone:tel:\")]//div[contains(@class, \"fontBodyMedium\")]''"

text \<open>\<open>a or b\<close> on strings.\<close>

definition or_str :: "string \<Rightarrow> string \<Rightarrow> string" where
  "or_str a b = (if a \<noteq> [] then a else b)"

text \<open>Lines 183 to 187: the \<open>domain\<close> and \<open>website\<close> fields from the website text.\<close>

definition domain_of :: "string \<Rightarrow> string option" where
  "domain_of website_text = (if website_text \<noteq> [] then Some website_text else None)"

definition website_of :: "string \<Rightarrow> string" where
  "website_of website_text =
     (if website_text \<noteq> []
      then (if prefix ''http'' website_text then website_text
            else ''https://www.'' @ website_text)
      else [])"

text \<open>
  The body of the \<open>try\<close> for one listing, up to the finished record: \<open>Inl e\<close> when an
  exception \<open>e\<close> leaves it (the click, or Email Discovery opening or closing its page).
\<close>

definition extract_listing :: "'h env \<Rightarrow> string \<Rightarrow> string \<Rightarrow> 'h \<Rightarrow> exn + business" where
  "extract_listing env cat loc listing =
     (case click_error env listing of
        Some e \<Rightarrow> Inl e
      | None \<Rightarrow>
          (let pg = detail env listing;
               name_txt = or_str (safe_text pg name_sel_primary)
                            (or_str (safe_text pg name_sel_fallback) (safe_text pg ''h1''));
               address_txt = safe_text pg address_xpath;
               website_text = safe_text pg website_xpath;
               phone_txt = safe_text pg phone_xpath
           in (case (if website_of website_text \<noteq> []
                     then scrape_email_from_website (web env listing) (website_of website_text)
                     else Inr [])
               of
                 Inl e \<Rightarrow> Inl e
               | Inr email_txt \<Rightarrow>
                   Inr \<lparr>name = Some name_txt, address = Some address_txt,
                        domain = domain_of website_text,
                        website = Some (website_of website_text),
                        phone_number = Some phone_txt,
                        email = Some (or_str email_txt []),
                        category = Some cat, location = Some loc\<rparr>)))"

text \<open>
  The loop over \<open>enumerate(listings, start=1)\<close>: the state is the BusinessList and the
  lines printed by the \<open>except\<close> branch, each an index and an exception.
\<close>

fun process_listings ::
  "(string list \<Rightarrow> 'v) \<Rightarrow> 'h env \<Rightarrow> string \<Rightarrow> string \<Rightarrow> nat \<Rightarrow> 'h list
     \<Rightarrow> 'v business_list_state \<times> (nat \<times> exn) list
     \<Rightarrow> 'v business_list_state \<times> (nat \<times> exn) list" where
  "process_listings h env cat loc idx [] acc = acc"
| "process_listings h env cat loc idx (listing # rest) (bl, printed) =
     (case extract_listing env cat loc listing of
        Inl e \<Rightarrow> process_listings h env cat loc (Suc idx) rest (bl, printed @ [(idx, e)])
      | Inr b \<Rightarrow> process_listings h env cat loc (Suc idx) rest (add_business h b bl, printed))"

section \<open>Pipeline Orchestrator (app.py, lines 112-213)\<close>

text \<open>
  What a run leaves behind: the returned path or the exception that leaves the
  function, the records handed to the file writer (if it was reached) and the lines
  printed.
\<close>

record run_result =
  outcome :: "exn + string"
  exported :: "business list option"
  printed_lines :: "(nat \<times> exn) list"

definition no_listings :: exn where
  "no_listings = RuntimeError ''No listings found. Try a different query or increase wait time.''"

definition raise_exn :: "exn \<Rightarrow> run_result" where
  "raise_exn e = \<lparr>outcome = Inl e, exported = None, printed_lines = []\<rparr>"

definition scrape_businesses_core ::
  "(string list \<Rightarrow> 'v) \<Rightarrow> 'h env \<Rightarrow> string \<Rightarrow> int \<Rightarrow> string \<Rightarrow> run_result" where
  "scrape_businesses_core h env query total_n filetype =
     (let (cat, loc) = parse_query query
      in case setup_error env of
           Some e \<Rightarrow> raise_exn e
         | None \<Rightarrow>
             (case scroll_loop env total_n max_scroll_loops 0 0 of
                Inl e \<Rightarrow> raise_exn e
              | Inr (how, k) \<Rightarrow>
                  (case snapshot_error env of
                     Some e \<Rightarrow> raise_exn e
                   | None \<Rightarrow>
                       (let anchors = snapshot_anchors env k
                        in if anchors = []
                           then (case browser_close_error env of
                                   Some e \<Rightarrow> raise_exn e
                                 | None \<Rightarrow> raise_exn no_listings)
                           else
                             (let listings = slice_to total_n (map (parent env) anchors);
                                  (bl, printed) =
                                     process_listings h env cat loc 1 listings
                                       (new_business_list, [])
                              in case export env filetype query (business_list bl) of
                                   Inl e \<Rightarrow>
                                     \<lparr>outcome = Inl e, exported = Some (business_list bl),
                                      printed_lines = printed\<rparr>
                                 | Inr file_path \<Rightarrow>
                                     (case browser_close_error env of
                                        Some e \<Rightarrow>
                                          \<lparr>outcome = Inl e,
                                           exported = Some (business_list bl),
                                           printed_lines = printed\<rparr>
                                      | None \<Rightarrow>
                                          \<lparr>outcome = Inr file_path,
                                           exported = Some (business_list bl),
                                           printed_lines = printed\<rparr>))))))"


section \<open>Notions of the specification\<close>

text \<open>
  An absolute URL starts with a scheme and a colon (RFC 3986): a letter, then
  letters, digits, \<open>+\<close>, \<open>-\<close> or \<open>.\<close>, then \<open>:\<close>.
\<close>

definition absolute_url :: "string \<Rightarrow> bool" where
  "absolute_url s =
     (case s of
        [] \<Rightarrow> False
      | c # cs \<Rightarrow>
          in_class alpha_class c
          \<and> list_all (in_class [Rng CHR ''a'' CHR ''z'', Rng CHR ''A'' CHR ''Z'',
                                Rng CHR ''0'' CHR ''9'', Lit CHR ''+'', Lit CHR ''-'',
                                Lit CHR ''.''])
               (takeWhile (\<lambda>x. x \<noteq> CHR '':'') cs)
          \<and> dropWhile (\<lambda>x. x \<noteq> CHR '':'') cs \<noteq> [])"

section \<open>Concrete inputs\<close>

definition acme_first :: business where
  "acme_first =
     \<lparr>name = Some ''Acme'', address = Some ''1 High St'', domain = Some ''acme.com'',
      website = Some ''https://www.acme.com'', phone_number = Some ''0111'',
      email = Some ''a@acme.com'', category = Some ''shops'', location = Some ''York''\<rparr>"

text \<open>Same name and domain as \<open>acme_first\<close>, every other field different.\<close>

definition acme_second :: business where
  "acme_second =
     \<lparr>name = Some ''Acme'', address = Some ''2 Low St'', domain = Some ''acme.com'',
      website = Some ''http://acme.com'', phone_number = Some ''0222'',
      email = Some ''b@acme.com'', category = Some ''stores'', location = Some ''Leeds''\<rparr>"

text \<open>Same name, domain, website and phone number as \<open>acme_first\<close>, the rest different.\<close>

definition acme_third :: business where
  "acme_third =
     \<lparr>name = Some ''Acme'', address = Some ''3 Mill Rd'', domain = Some ''acme.com'',
      website = Some ''https://www.acme.com'', phone_number = Some ''0111'',
      email = Some ''c@acme.com'', category = Some ''stores'', location = Some ''Leeds''\<rparr>"


text \<open>A website that answers every call without an exception and has empty markup.\<close>

definition quiet_site :: site where
  "quiet_site = \<lparr>new_page_error = None, goto_error = None, load_state_error = None,
                  page_content = Inr [], page_close_error = None\<rparr>"



text \<open>
  An environment in which no call raises: the anchors after each scroll are given and
  the snapshot after the loop sees the same anchors as the last count, detail views are
  empty, the export returns a path. Handles are numbers.
\<close>

definition quiet_env :: "(nat \<Rightarrow> nat list) \<Rightarrow> nat env" where
  "quiet_env anchors =
     \<lparr>setup_error = None, scroll_error = (\<lambda>k. None), anchors_after = anchors,
      snapshot_anchors = anchors, snapshot_error = None, parent = (\<lambda>a. a), click_error = (\<lambda>l. None),
      detail = (\<lambda>l selector. Inr []), web = (\<lambda>l url. quiet_site),
      export = (\<lambda>filetype query records. Inr ''GMaps_Data/out.csv''),
      browser_close_error = None\<rparr>"


text \<open>No anchor ever appears.\<close>

definition empty_env :: "nat env" where
  "empty_env = quiet_env (\<lambda>k. [])"

text \<open>Opening the map times out, although the page would show three anchors.\<close>

definition timeout_env :: "nat env" where
  "timeout_env = (quiet_env (\<lambda>k. [0, 1, 2]))\<lparr>setup_error := Some PWTimeoutError\<rparr>"

text \<open>Three listings; each detail view has one \<open>h1\<close>; clicking the second one fails.\<close>

definition flaky_env :: "nat env" where
  "flaky_env = (quiet_env (\<lambda>k. [0, 1, 2]))
     \<lparr>click_error := (\<lambda>l. if l = 1 then Some (OtherException ''click intercepted'') else None),
      detail := (\<lambda>l selector. if selector = ''h1''
                   then Inr [Inr (if l = 0 then ''Shop A'' else ''Shop C'')] else Inr [])\<rparr>"

text \<open>One listing whose website text is a bare domain that begins with \<open>http\<close>.\<close>

definition httpbin_env :: "nat env" where
  "httpbin_env = (quiet_env (\<lambda>k. [0]))
     \<lparr>detail := (\<lambda>l selector. if selector = website_xpath
                   then Inr [Inr ''httpbin.org''] else Inr [])\<rparr>"

text \<open>One listing whose website text is a bare domain.\<close>

definition acme_env :: "nat env" where
  "acme_env = (quiet_env (\<lambda>k. [0]))
     \<lparr>detail := (\<lambda>l selector. if selector = website_xpath
                   then Inr [Inr ''acme.com''] else Inr [])\<rparr>"

text \<open>A page with two \<open>h1\<close> elements, the first of them empty.\<close>

definition two_h1_page :: page where
  "two_h1_page =
     (\<lambda>selector. if selector = ''h1'' then Inr [Inr [], Inr ''Acme Co''] else Inr [])"

text \<open>
  A page on which the primary name selector raises, the fallback matches nothing and
  \<open>h1\<close> matches two elements.
\<close>

definition acme_page :: page where
  "acme_page =
     (\<lambda>selector. if selector = name_sel_primary then Inl (OtherException ''page crashed'')
                  else if selector = ''h1'' then Inr [Inr ''  Acme Co '', Inr ''Directions'']
                  else Inr [])"


text \<open>The record extracted from the one listing of \<open>acme_env\<close>.\<close>

definition acme_record :: business where
  "acme_record = \<lparr>name = Some [], address = Some [], domain = Some ''acme.com'',
        website = Some ''https://www.acme.com'', phone_number = Some [], email = Some [],
        category = Some ''cafes'', location = Some ''Paris''\<rparr>"

text \<open>The records of the two listings of \<open>flaky_env\<close> that can be clicked.\<close>

definition shop_records :: "business list" where
  "shop_records =
     [\<lparr>name = Some ''Shop A'', address = Some [], domain = None, website = Some [],
       phone_number = Some [], email = Some [], category = Some ''shops'',
       location = Some ''York''\<rparr>,
      \<lparr>name = Some ''Shop C'', address = Some [], domain = None, website = Some [],
       phone_number = Some [], email = Some [], category = Some ''shops'',
       location = Some ''York''\<rparr>]"

text \<open>
  The count of every iteration sees no anchor; the snapshot after the loop sees two,
  each with one \<open>h1\<close> in its detail view.
\<close>

definition late_env :: "nat env" where
  "late_env = (quiet_env (\<lambda>k. []))
     \<lparr>snapshot_anchors := (\<lambda>k. [0, 1]),
      detail := (\<lambda>l selector. if selector = ''h1''
                   then Inr [Inr (if l = 0 then ''Shop A'' else ''Shop C'')] else Inr [])\<rparr>"

text \<open>No anchor ever appears, and closing the browser raises.\<close>

definition close_fails_env :: "nat env" where
  "close_fails_env = empty_env
     \<lparr>browser_close_error := Some (OtherException ''Browser has been closed'')\<rparr>"


section \<open>Properties of the Deduplicator\<close>



lemma add_all_append: "add_all h (xs @ ys) st = add_all h ys (add_all h xs st)"
  by (simp add: add_all_def)



lemma add_two_same_key:
  "hash_fields a = hash_fields b \<Longrightarrow>
   business_list (add_all h [a, b] new_business_list) = [a]"
  by (simp add: add_all_def add_business_def new_business_list_def business_hash_def)


text \<open>
  C1 as stated fails: the Identity Key also holds the website and the phone number, so
  two records with the same name and domain that differ in every other field have
  different keys and are both kept (here with a hash that separates the two keys).
\<close>

theorem same_name_domain_both_kept:
  "name acme_first = name acme_second \<and> domain acme_first = domain acme_second
   \<and> address acme_first \<noteq> address acme_second
   \<and> website acme_first \<noteq> website acme_second
   \<and> phone_number acme_first \<noteq> phone_number acme_second
   \<and> email acme_first \<noteq> email acme_second
   \<and> category acme_first \<noteq> category acme_second
   \<and> location acme_first \<noteq> location acme_second
   \<and> business_list (add_all id [acme_first, acme_second] new_business_list)
       = [acme_first, acme_second]
   \<and> length (business_list (add_all id [acme_first, acme_second] new_business_list)) \<noteq> 1"
  by (simp add: acme_first_def acme_second_def add_all_def add_business_def
      new_business_list_def business_hash_def hash_fields_def)

text \<open>
  C1, amended: two records with identical name, domain, website and phone number (so
  with identical Identity Key), whatever their other fields, added in sequence to an
  empty Deduplicator, give a result sequence of length 1 that holds the first one. This
  holds for every hash function.
\<close>

theorem same_identity_first_kept:
  assumes "name a = name b" and "domain a = domain b"
    and "website a = website b" and "phone_number a = phone_number b"
  shows "business_list (add_all h [a, b] new_business_list) = [a]
         \<and> length (business_list (add_all h [a, b] new_business_list)) = 1"
proof -
  from assms have "hash_fields a = hash_fields b" by (simp add: hash_fields_def)
  then show ?thesis by (simp add: add_two_same_key)
qed

text \<open>
  Two records that agree on the four key fields and differ in all others.
\<close>

theorem same_identity_first_kept_witness:
  "address acme_first \<noteq> address acme_third \<and> email acme_first \<noteq> email acme_third
   \<and> category acme_first \<noteq> category acme_third
   \<and> location acme_first \<noteq> location acme_third
   \<and> business_list (add_all id [acme_first, acme_third] new_business_list) = [acme_first]
   \<and> length (business_list (add_all id [acme_first, acme_third] new_business_list)) = 1"
proof -
  have "name acme_first = name acme_third" "domain acme_first = domain acme_third"
    "website acme_first = website acme_third"
    "phone_number acme_first = phone_number acme_third"
    by (simp_all add: acme_first_def acme_third_def)
  from same_identity_first_kept[OF this, of id] show ?thesis
    by (simp add: acme_first_def acme_third_def)
qed

section \<open>Properties of the Query Parser\<close>

lemmas strip_defs = strip_def is_space_def

lemma find_sub_None: "\<not> sublist sep s \<Longrightarrow> find_sub sep s = None"
proof (induction s)
  case Nil
  then show ?case by auto
next
  case (Cons c cs)
  from Cons.prems have "\<not> prefix sep (c # cs)" by (auto dest: prefix_imp_sublist)
  moreover from Cons.prems have "\<not> sublist sep cs" by (auto simp: sublist_Cons_right)
  ultimately show ?case using Cons.IH by simp
qed

text \<open>
  When no occurrence of the separator starts inside \<open>a\<close>, the occurrence behind \<open>a\<close>
  is the leftmost one.
\<close>

lemma find_sub_first:
  assumes "sep \<noteq> []" and "\<not> sublist sep (a @ butlast sep)"
  shows "find_sub sep (a @ sep @ r) = Some (length a)"
  using assms(2)
proof (induction a)
  case Nil
  from assms(1) obtain c cs where "sep @ r = c # cs" by (cases sep) auto
  moreover have "prefix sep (sep @ r)" by simp
  ultimately show ?case by simp
next
  case (Cons x a)
  have np: "\<not> prefix sep (x # a @ sep @ r)"
  proof
    assume p: "prefix sep (x # a @ sep @ r)"
    have q: "prefix ((x # a) @ butlast sep) (x # a @ sep @ r)"
      using assms(1) by (simp add: prefix_def) (metis append_butlast_last_id append_assoc)
    have "length sep \<le> length ((x # a) @ butlast sep)" by simp
    with p q have "prefix sep ((x # a) @ butlast sep)"
      by (metis prefix_length_prefix)
    then show False using Cons.prems by (auto dest: prefix_imp_sublist)
  qed
  from Cons.prems have "\<not> sublist sep (a @ butlast sep)" by (auto simp: sublist_Cons_right)
  from Cons.IH[OF this] np show ?case by simp
qed

lemma py_split_none: "\<not> sublist sep s \<Longrightarrow> py_split sep s = [s]"
  by (subst py_split.simps) (simp add: find_sub_None)

lemma py_split_first:
  "sep \<noteq> [] \<Longrightarrow> \<not> sublist sep (a @ butlast sep) \<Longrightarrow>
   py_split sep (a @ sep @ r) = a # py_split sep r"
  using find_sub_first[of sep a r] by (subst py_split.simps) simp

text \<open>
  C2 as stated fails: the query is split at every separator and only the second part
  becomes the location, so the text behind a second separator is dropped.
\<close>

theorem location_stops_at_second_separator:
  "parse_query ''stores in york in uk'' = (''stores'', ''york'')
   \<and> snd (parse_query ''stores in york in uk'') \<noteq> ''york in uk''"
  by (simp add: parse_query_def py_split.simps strip_defs)

text \<open>
  C2, amended: the category is the whitespace-trimmed text before the first separator
  (the trimmed whole query when there is none); the location is the trimmed text
  between the first and the second separator, or behind the first one when there is no
  second, and empty when there is no separator. "No occurrence of the separator starts
  inside \<open>a\<close>" is written \<open>\<not> sublist '' in '' (a @ '' in'')\<close>.
\<close>

theorem parse_query_first_two_parts:
  "(\<not> sublist '' in '' q \<longrightarrow> parse_query q = (strip q, []))
   \<and> (\<not> sublist '' in '' (a @ '' in'') \<and> \<not> sublist '' in '' r \<longrightarrow>
        parse_query (a @ '' in '' @ r) = (strip a, strip r))
   \<and> (\<not> sublist '' in '' (a @ '' in'') \<and> \<not> sublist '' in '' (b @ '' in'') \<longrightarrow>
        parse_query (a @ '' in '' @ b @ '' in '' @ r) = (strip a, strip b))"
proof (intro conjI impI)
  assume "\<not> sublist '' in '' q"
  then have "py_split '' in '' q = [q]" by (rule py_split_none)
  then show "parse_query q = (strip q, [])" by (simp add: parse_query_def)
next
  assume h: "\<not> sublist '' in '' (a @ '' in'') \<and> \<not> sublist '' in '' r"
  then have "py_split '' in '' (a @ '' in '' @ r) = a # py_split '' in '' r"
    using py_split_first[of "'' in ''" a r] by simp
  also have "py_split '' in '' r = [r]" using h by (simp add: py_split_none)
  finally show "parse_query (a @ '' in '' @ r) = (strip a, strip r)"
    by (simp add: parse_query_def)
next
  assume h: "\<not> sublist '' in '' (a @ '' in'') \<and> \<not> sublist '' in '' (b @ '' in'')"
  then have "py_split '' in '' (a @ '' in '' @ b @ '' in '' @ r)
     = a # py_split '' in '' (b @ '' in '' @ r)"
    using py_split_first[of "'' in ''" a "b @ '' in '' @ r"] by simp
  also have "py_split '' in '' (b @ '' in '' @ r) = b # py_split '' in '' r"
    using h py_split_first[of "'' in ''" b r] by simp
  finally show "parse_query (a @ '' in '' @ b @ '' in '' @ r) = (strip a, strip b)"
    by (simp add: parse_query_def)
qed

text \<open>
  No separator, one separator, and two separators with whitespace around the category.
\<close>

theorem parse_query_first_two_parts_witness:
  "\<not> sublist '' in '' ''bookstores''
   \<and> parse_query ''bookstores'' = (''bookstores'', [])
   \<and> \<not> sublist '' in '' (''restaurants'' @ '' in'') \<and> \<not> sublist '' in '' ''Paris''
   \<and> parse_query ''restaurants in Paris'' = (''restaurants'', ''Paris'')
   \<and> \<not> sublist '' in '' (''New  '' @ '' in'') \<and> \<not> sublist '' in '' (''york'' @ '' in'')
   \<and> parse_query ''New   in york in uk'' = (''New'', ''york'')"
proof -
  have n1: "\<not> sublist '' in '' ''bookstores''" by (simp add: sublist_code)
  have n2: "\<not> sublist '' in '' (''restaurants'' @ '' in'') \<and> \<not> sublist '' in '' ''Paris''"
    by (simp add: sublist_code)
  have n3: "\<not> sublist '' in '' (''New  '' @ '' in'') \<and> \<not> sublist '' in '' (''york'' @ '' in'')"
    by (simp add: sublist_code)
  have s: "strip ''bookstores'' = ''bookstores''" "strip ''restaurants'' = ''restaurants''"
    "strip ''Paris'' = ''Paris''" "strip ''New  '' = ''New''" "strip ''york'' = ''york''"
    by (simp_all add: strip_defs)
  from parse_query_first_two_parts[of "''bookstores''" "''restaurants''" "''Paris''" "''york''"]
    n1 n2
  have a: "parse_query ''bookstores'' = (''bookstores'', [])"
    and b: "parse_query ''restaurants in Paris'' = (''restaurants'', ''Paris'')"
    using s by simp_all
  from parse_query_first_two_parts[of "''bookstores''" "''New  ''" "''uk''" "''york''"] n3
  have c: "parse_query ''New   in york in uk'' = (''New'', ''york'')"
    using s by simp
  from a b c n1 n2 n3 show ?thesis by simp
qed


section \<open>Properties of the email pattern\<close>













lemmas regex_defs = EMAIL_REGEX_def local_class_def domain_class_def alpha_class_def in_class_def









section \<open>Properties of Email Discovery\<close>

lemmas extractor_defs = extract_listing_def safe_text_def website_of_def domain_of_def
  name_sel_primary_def name_sel_fallback_def address_xpath_def
  website_xpath_def phone_xpath_def scrape_email_from_website_def email_in_try_def or_str_def
  Let_def
lemmas dedup_defs = add_business_def new_business_list_def business_hash_def hash_fields_def
lemmas env_defs = quiet_env_def quiet_site_def







section \<open>Properties of the Field Extractor\<close>

lemma last_dropWhile: "dropWhile P xs \<noteq> [] \<Longrightarrow> last (dropWhile P xs) = last xs"
  by (induction xs) (auto split: if_splits)

lemma strip_decomp:
  "\<exists>a b. t = a @ strip t @ b \<and> list_all is_space a \<and> list_all is_space b"
proof -
  let ?u = "dropWhile is_space t"
  let ?v = "dropWhile is_space (rev ?u)"
  have t: "t = takeWhile is_space t @ ?u" by simp
  have "?u = rev (rev ?u)" by simp
  also have "\<dots> = rev (takeWhile is_space (rev ?u) @ ?v)"
    by (simp only: takeWhile_dropWhile_id)
  also have "\<dots> = rev ?v @ rev (takeWhile is_space (rev ?u))"
    by (simp only: rev_append)
  finally have u: "?u = rev ?v @ rev (takeWhile is_space (rev ?u))" .
  have "t = takeWhile is_space t @ strip t @ rev (takeWhile is_space (rev ?u))"
    unfolding strip_def using t u by metis
  moreover have "list_all is_space (takeWhile is_space t)"
    by (auto simp: list_all_iff dest: set_takeWhileD)
  moreover have "list_all is_space (rev (takeWhile is_space (rev ?u)))"
    by (auto simp: list_all_iff dest: set_takeWhileD)
  ultimately show ?thesis by blast
qed

lemma strip_ends:
  assumes "strip t \<noteq> []"
  shows "\<not> is_space (hd (strip t)) \<and> \<not> is_space (last (strip t))"
proof -
  let ?u = "dropWhile is_space t"
  let ?v = "dropWhile is_space (rev ?u)"
  from assms have v: "?v \<noteq> []" by (simp add: strip_def)
  have u: "?u \<noteq> []"
  proof
    assume "?u = []"
    then have "?v = []" by (simp only: rev.simps dropWhile.simps)
    with v show False by contradiction
  qed
  have "last (strip t) = hd ?v" using v by (simp add: strip_def last_rev)
  moreover have "\<not> is_space (hd ?v)" using v by (rule hd_dropWhile)
  moreover have "hd (strip t) = last ?v" using v by (simp add: strip_def hd_rev)
  moreover have "last ?v = last (rev ?u)" using v by (rule last_dropWhile)
  moreover have "last (rev ?u) = hd ?u" using u by (simp add: last_rev)
  moreover have "\<not> is_space (hd ?u)" using u by (rule hd_dropWhile)
  ultimately show ?thesis by simp
qed

text \<open>
  C4, amended: the Field Extractor always returns a string (it has no exceptional
  result). When the locator matches and the text of its first element can be read, the
  result is that text without its leading and trailing whitespace, whether or not it
  is empty and whatever the other elements are. When the locator raises, matches
  nothing, or reading the first element raises, the result is the empty string.
\<close>

theorem safe_text_first_element:
  "(pg selector = Inr (Inr t # rest) \<longrightarrow>
      safe_text pg selector = strip t
      \<and> (\<exists>a b. t = a @ strip t @ b \<and> list_all is_space a \<and> list_all is_space b)
      \<and> (strip t \<noteq> [] \<longrightarrow> \<not> is_space (hd (strip t)) \<and> \<not> is_space (last (strip t))))
   \<and> ((\<exists>e. pg selector = Inl e) \<or> pg selector = Inr []
        \<or> (\<exists>e others. pg selector = Inr (Inl e # others))
      \<longrightarrow> safe_text pg selector = [])"
proof (intro conjI impI)
  assume "pg selector = Inr (Inr t # rest)"
  then show "safe_text pg selector = strip t" by (simp add: safe_text_def)
next
  show "\<exists>a b. t = a @ strip t @ b \<and> list_all is_space a \<and> list_all is_space b"
    by (rule strip_decomp)
next
  assume "strip t \<noteq> []"
  then show "\<not> is_space (hd (strip t))" "\<not> is_space (last (strip t))"
    using strip_ends by blast+
next
  assume "(\<exists>e. pg selector = Inl e) \<or> pg selector = Inr []
        \<or> (\<exists>e others. pg selector = Inr (Inl e # others))"
  then show "safe_text pg selector = []" by (auto simp: safe_text_def)
qed

text \<open>
  A page on which one selector raises, one matches nothing and one matches two elements.
\<close>

theorem safe_text_first_element_witness:
  "acme_page ''h1'' = Inr [Inr ''  Acme Co '', Inr ''Directions'']
   \<and> safe_text acme_page ''h1'' = ''Acme Co''
   \<and> (\<exists>e. acme_page name_sel_primary = Inl e) \<and> safe_text acme_page name_sel_primary = []
   \<and> acme_page name_sel_fallback = Inr [] \<and> safe_text acme_page name_sel_fallback = []"
proof -
  have p1: "acme_page ''h1'' = Inr [Inr ''  Acme Co '', Inr ''Directions'']"
    and p2: "\<exists>e. acme_page name_sel_primary = Inl e"
    and p3: "acme_page name_sel_fallback = Inr []"
    by (simp_all add: acme_page_def name_sel_primary_def name_sel_fallback_def)
  have s: "strip ''  Acme Co '' = ''Acme Co''" by (simp add: strip_defs)
  from safe_text_first_element[of acme_page "''h1''" "''  Acme Co ''" "[Inr ''Directions'']"] p1 s
  have a: "safe_text acme_page ''h1'' = ''Acme Co''" by simp
  from safe_text_first_element[of acme_page name_sel_primary] p2
  have b: "safe_text acme_page name_sel_primary = []" by blast
  from safe_text_first_element[of acme_page name_sel_fallback] p3
  have c: "safe_text acme_page name_sel_fallback = []" by blast
  from p1 p2 p3 a b c show ?thesis by simp
qed

text \<open>
  C4 as stated fails for "the first matching, non-empty element": only the first
  matching element is read. When its text is empty and a later element has text, the
  result is empty, not the text of the first non-empty element.
\<close>

theorem empty_first_element_not_skipped:
  "two_h1_page ''h1'' = Inr [Inr [], Inr ''Acme Co'']
   \<and> spec_first_nonempty [Inr [], Inr ''Acme Co''] = ''Acme Co''
   \<and> safe_text two_h1_page ''h1'' = []"
  by (simp add: two_h1_page_def safe_text_def strip_defs)

section \<open>Properties of the Record Extractor\<close>

lemma absolute_https: "absolute_url (''https://www.'' @ t)"
  by (simp add: absolute_url_def in_class_def alpha_class_def)

lemma extract_listing_fields:
  assumes "extract_listing env cat loc l = Inr b"
  shows "website b = Some (website_of (safe_text (detail env l) website_xpath))
       \<and> domain b = domain_of (safe_text (detail env l) website_xpath)
       \<and> category b = Some cat \<and> location b = Some loc"
  using assms
  by (auto simp: extract_listing_def Let_def split: option.splits sum.splits if_splits)

text \<open>
  C6, amended: for every non-empty website text of a listing that yields a record, the
  website field is the text unchanged if it starts with \<open>http\<close>, and otherwise
  \<open>https://www.\<close> followed by the text, which is an absolute URL; the domain field is
  the text. Whether a text that starts with \<open>http\<close> is an absolute URL is not part
  of this statement.
\<close>

theorem website_normalised:
  assumes "extract_listing env cat loc l = Inr b"
    and "safe_text (detail env l) website_xpath = t" and "t \<noteq> []"
  shows "(prefix ''http'' t \<longrightarrow> website b = Some t)
       \<and> (\<not> prefix ''http'' t \<longrightarrow> website b = Some (''https://www.'' @ t)
              \<and> absolute_url (''https://www.'' @ t))
       \<and> domain b = Some t"
proof -
  from extract_listing_fields[OF assms(1)] assms(2)
  have w: "website b = Some (website_of t)" and d: "domain b = domain_of t" by simp_all
  have "absolute_url (''https://www.'' @ t)" by (rule absolute_https)
  with w d assms(3) show ?thesis by (simp add: website_of_def domain_of_def)
qed

text \<open>
  The bare domain \<open>acme.com\<close> becomes \<open>https://www.acme.com\<close>.
\<close>

theorem website_normalised_witness:
  "extract_listing acme_env ''cafes'' ''Paris'' 0 = Inr acme_record
   \<and> safe_text (detail acme_env 0) website_xpath = ''acme.com''
   \<and> \<not> prefix ''http'' ''acme.com''
   \<and> website acme_record = Some ''https://www.acme.com''
   \<and> absolute_url ''https://www.acme.com''
   \<and> domain acme_record = Some ''acme.com''"
proof -
  have e: "extract_listing acme_env ''cafes'' ''Paris'' 0 = Inr acme_record"
    by (simp add: extractor_defs regex_defs strip_defs acme_env_def env_defs acme_record_def)
  have t: "safe_text (detail acme_env 0) website_xpath = ''acme.com''"
    by (simp add: safe_text_def strip_defs acme_env_def env_defs)
  have n: "''acme.com'' \<noteq> []" "\<not> prefix ''http'' ''acme.com''" by simp_all
  from website_normalised[OF e t n(1)] n(2) e t show ?thesis by simp
qed

text \<open>
  C6 as stated fails in "whenever the website field is present it is an absolute URL":
  a bare domain that begins with the letters \<open>http\<close> is stored unchanged, and it has
  no scheme.
\<close>

theorem http_prefixed_domain_not_absolute:
  "safe_text (detail httpbin_env 0) website_xpath = ''httpbin.org''
   \<and> extract_listing httpbin_env ''cafes'' ''Paris'' 0
       = Inr \<lparr>name = Some [], address = Some [], domain = Some ''httpbin.org'',
              website = Some ''httpbin.org'', phone_number = Some [], email = Some [],
              category = Some ''cafes'', location = Some ''Paris''\<rparr>
   \<and> \<not> absolute_url ''httpbin.org''"
  by (simp add: extractor_defs regex_defs strip_defs httpbin_env_def env_defs absolute_url_def)

section \<open>Properties of the Listing Discovery Loop\<close>

text \<open>
  An exception that leaves the scroll loop was raised by one of its iterations, and the
  loop executes between one and \<open>n\<close> iterations.
\<close>

lemma scroll_loop_error:
  "scroll_loop env total_n n k p = Inl e \<Longrightarrow> \<exists>j. scroll_error env j = Some e"
proof (induction n arbitrary: k p)
  case 0
  then show ?case by simp
next
  case (Suc n)
  then show ?case
    by (cases "scroll_error env (Suc k)") (auto simp: Let_def split: if_splits)
qed

lemma scroll_loop_iterations:
  "scroll_loop env total_n n k p = Inr (how, j) \<Longrightarrow> j \<le> k + n \<and> (0 < n \<longrightarrow> k < j)"
proof (induction n arbitrary: k p)
  case 0
  then show ?case by simp
next
  case (Suc n)
  show ?case
  proof (cases "scroll_error env (Suc k)")
    case (Some e)
    with Suc.prems show ?thesis by simp
  next
    case None
    with Suc.prems Suc.IH[of "Suc k" "int (length (anchors_after env (Suc k)))"]
    show ?thesis by (cases n) (auto simp: Let_def split: if_splits)
  qed
qed




section \<open>Properties of the listing loop\<close>

lemma process_listings_append:
  "process_listings h env cat loc i (xs @ ys) acc
     = process_listings h env cat loc (i + length xs) ys (process_listings h env cat loc i xs acc)"
proof (induction xs arbitrary: i acc)
  case Nil
  then show ?case by simp
next
  case (Cons x xs)
  obtain bl pr where acc: "acc = (bl, pr)" by (cases acc)
  show ?case using Cons.IH[of "Suc i"] acc
    by (cases "extract_listing env cat loc x") simp_all
qed

lemma process_listings_fst:
  "fst (process_listings h env cat loc i ls (bl, pr))
     = fst (process_listings h env cat loc j ls (bl, pr'))"
proof (induction ls arbitrary: i j bl pr pr')
  case Nil
  then show ?case by simp
next
  case (Cons x xs)
  show ?case
  proof (cases "extract_listing env cat loc x")
    case (Inl e)
    then show ?thesis using Cons.IH[of "Suc i" bl "pr @ [(i, e)]" "Suc j" "pr' @ [(j, e)]"] by simp
  next
    case (Inr b)
    then show ?thesis using Cons.IH[of "Suc i" "add_business h b bl" pr "Suc j" pr'] by simp
  qed
qed

lemma process_listings_log_grows:
  "set pr \<subseteq> set (snd (process_listings h env cat loc i ls (bl, pr)))"
proof (induction ls arbitrary: i bl pr)
  case Nil
  then show ?case by simp
next
  case (Cons x xs)
  show ?case
  proof (cases "extract_listing env cat loc x")
    case (Inl e)
    then show ?thesis using Cons.IH[of "pr @ [(i, e)]" "Suc i" bl] by auto
  next
    case (Inr b)
    then show ?thesis using Cons.IH[of pr "Suc i" "add_business h b bl"] by simp
  qed
qed

lemma add_business_seen: "seen_businesses bl \<subseteq> seen_businesses (add_business h b bl)
    \<and> business_hash h b \<in> seen_businesses (add_business h b bl)"
  by (auto simp: add_business_def)

lemma process_listings_seen_grows:
  "seen_businesses bl \<subseteq> seen_businesses (fst (process_listings h env cat loc i ls (bl, pr)))"
proof (induction ls arbitrary: i bl pr)
  case Nil
  then show ?case by simp
next
  case (Cons x xs)
  show ?case
  proof (cases "extract_listing env cat loc x")
    case (Inl e)
    then show ?thesis using Cons.IH[of bl "Suc i" "pr @ [(i, e)]"] by simp
  next
    case (Inr b)
    then show ?thesis using Cons.IH[of "add_business h b bl" "Suc i" pr] add_business_seen[of bl h b]
      by auto
  qed
qed

lemma process_listings_success_seen:
  "y \<in> set ls \<Longrightarrow> extract_listing env cat loc y = Inr b \<Longrightarrow>
   business_hash h b \<in> seen_businesses (fst (process_listings h env cat loc i ls (bl, pr)))"
proof (induction ls arbitrary: i bl pr)
  case Nil
  then show ?case by simp
next
  case (Cons x xs)
  show ?case
  proof (cases "y = x")
    case True
    with Cons.prems(2) process_listings_seen_grows[of "add_business h b bl" h env cat loc "Suc i" xs pr]
      add_business_seen[of bl h b]
    show ?thesis by auto
  next
    case False
    with Cons.prems have y: "y \<in> set xs" by simp
    show ?thesis
    proof (cases "extract_listing env cat loc x")
      case (Inl e)
      then show ?thesis using Cons.IH[OF y Cons.prems(2), of "Suc i" bl "pr @ [(i, e)]"] by simp
    next
      case (Inr b')
      then show ?thesis using Cons.IH[OF y Cons.prems(2), of "Suc i" "add_business h b' bl" pr] by simp
    qed
  qed
qed


section \<open>Properties of the pipeline\<close>

lemma core_error_sources:
  assumes "outcome (scrape_businesses_core h env query total_n filetype) = Inl e"
  shows "e = no_listings \<or> setup_error env = Some e \<or> (\<exists>k. scroll_error env k = Some e)
         \<or> snapshot_error env = Some e \<or> browser_close_error env = Some e
         \<or> (\<exists>records. export env filetype query records = Inl e)"
proof (cases "setup_error env")
  case (Some x)
  with assms show ?thesis
    by (simp add: scrape_businesses_core_def raise_exn_def split: prod.splits)
next
  case None
  note ok = this
  show ?thesis
  proof (cases "scroll_loop env total_n max_scroll_loops 0 0")
    case (Inl x)
    with assms ok have "x = e"
      by (simp add: scrape_businesses_core_def raise_exn_def split: prod.splits)
    with scroll_loop_error[OF Inl] show ?thesis by blast
  next
    case (Inr r)
    obtain how k where r: "r = (how, k)" by (cases r)
    show ?thesis
    proof (cases "snapshot_error env")
      case (Some x)
      with assms ok Inr r show ?thesis
        by (simp add: scrape_businesses_core_def raise_exn_def split: prod.splits)
    next
      case None
      with assms ok Inr r show ?thesis
        by (auto simp: scrape_businesses_core_def raise_exn_def Let_def
            split: prod.splits option.splits sum.splits if_splits)
    qed
  qed
qed

lemma core_reaches_export:
  assumes "setup_error env = None"
    and "scroll_loop env total_n max_scroll_loops 0 0 = Inr (how, k)"
    and "snapshot_error env = None" and "snapshot_anchors env k \<noteq> []"
  shows "exported (scrape_businesses_core h env query total_n filetype)
           = Some (business_list (fst (process_listings h env (fst (parse_query query))
                (snd (parse_query query)) 1
                (slice_to total_n (map (parent env) (snapshot_anchors env k)))
                (new_business_list, []))))
       \<and> printed_lines (scrape_businesses_core h env query total_n filetype)
           = snd (process_listings h env (fst (parse_query query))
                (snd (parse_query query)) 1
                (slice_to total_n (map (parent env) (snapshot_anchors env k)))
                (new_business_list, []))
       \<and> (browser_close_error env = None \<longrightarrow>
            outcome (scrape_businesses_core h env query total_n filetype)
              = export env filetype query
                  (business_list (fst (process_listings h env (fst (parse_query query))
                     (snd (parse_query query)) 1
                     (slice_to total_n (map (parent env) (snapshot_anchors env k)))
                     (new_business_list, []))))) "
  using assms
  by (auto simp: scrape_businesses_core_def Let_def split: prod.splits sum.splits option.splits)


text \<open>
  C8 as stated fails in its last part: the zero-listings error is not the only error
  that crosses the pipeline boundary. Opening the map is not inside a \<open>try\<close>; when
  it times out, that exception leaves the pipeline, though anchors would be there.
\<close>

theorem setup_timeout_crosses_boundary:
  "anchors_after timeout_env 1 \<noteq> [] \<and> snapshot_anchors timeout_env 1 \<noteq> []
   \<and> outcome (scrape_businesses_core id timeout_env ''cafes in Paris'' 10 ''Excel'')
       = Inl PWTimeoutError
   \<and> PWTimeoutError \<noteq> no_listings"
  by (simp add: scrape_businesses_core_def raise_exn_def timeout_env_def env_defs
      no_listings_def split: prod.splits)

text \<open>
  C8, amended: if the snapshot taken after the scroll loop holds no anchor (and closing
  the browser does not raise), the pipeline raises the "no listings found" error, nothing
  is handed to the file writer and nothing is printed. It is the only error the pipeline
  raises itself; every other exception that leaves the pipeline comes from start-up and
  query submission, a scroll or count, the anchor snapshot, the file export or closing
  the browser. Exceptions of single listings never leave it.
\<close>

theorem no_listings_fatal:
  "(setup_error env = None \<and> scroll_loop env total_n max_scroll_loops 0 0 = Inr (how, k)
      \<and> snapshot_error env = None \<and> snapshot_anchors env k = [] \<and> browser_close_error env = None
    \<longrightarrow> scrape_businesses_core h env query total_n filetype
          = \<lparr>outcome = Inl no_listings, exported = None, printed_lines = []\<rparr>)
   \<and> (outcome (scrape_businesses_core h env query total_n filetype) = Inl e
    \<longrightarrow> e = no_listings \<or> setup_error env = Some e \<or> (\<exists>j. scroll_error env j = Some e)
         \<or> snapshot_error env = Some e \<or> browser_close_error env = Some e
         \<or> (\<exists>records. export env filetype query records = Inl e))"
proof (intro conjI impI)
  assume "setup_error env = None \<and> scroll_loop env total_n max_scroll_loops 0 0 = Inr (how, k)
      \<and> snapshot_error env = None \<and> snapshot_anchors env k = [] \<and> browser_close_error env = None"
  then show "scrape_businesses_core h env query total_n filetype
          = \<lparr>outcome = Inl no_listings, exported = None, printed_lines = []\<rparr>"
    by (simp add: scrape_businesses_core_def raise_exn_def split: prod.splits)
next
  assume "outcome (scrape_businesses_core h env query total_n filetype) = Inl e"
  then show "e = no_listings \<or> setup_error env = Some e \<or> (\<exists>j. scroll_error env j = Some e)
         \<or> snapshot_error env = Some e \<or> browser_close_error env = Some e
         \<or> (\<exists>records. export env filetype query records = Inl e)"
    by (rule core_error_sources)
qed

text \<open>
  A page without anchors and a requested total of 0: the loop ends through the total
  check and the run with the "no listings found" error.
\<close>

theorem no_listings_fatal_witness:
  "setup_error empty_env = None
   \<and> scroll_loop empty_env 0 max_scroll_loops 0 0 = Inr (ReachedTotal, 1)
   \<and> snapshot_error empty_env = None \<and> snapshot_anchors empty_env 1 = []
   \<and> browser_close_error empty_env = None
   \<and> scrape_businesses_core id empty_env ''cafes in Paris'' 0 ''CSV''
       = \<lparr>outcome = Inl no_listings, exported = None, printed_lines = []\<rparr>
   \<and> outcome (scrape_businesses_core id empty_env ''cafes in Paris'' 0 ''CSV'') = Inl no_listings"
proof -
  have p: "setup_error empty_env = None
      \<and> scroll_loop empty_env 0 max_scroll_loops 0 0 = Inr (ReachedTotal, 1)
      \<and> snapshot_error empty_env = None \<and> snapshot_anchors empty_env 1 = []
      \<and> browser_close_error empty_env = None"
    by (simp add: empty_env_def env_defs max_scroll_loops_def eval_nat_numeral)
  from no_listings_fatal[of empty_env 0 ReachedTotal 1 id "''cafes in Paris''" "''CSV''" no_listings]
    p
  have r: "scrape_businesses_core id empty_env ''cafes in Paris'' 0 ''CSV''
       = \<lparr>outcome = Inl no_listings, exported = None, printed_lines = []\<rparr>" by blast
  then have o: "outcome (scrape_businesses_core id empty_env ''cafes in Paris'' 0 ''CSV'')
      = Inl no_listings" by simp
  from no_listings_fatal[of empty_env 0 ReachedTotal 1 id "''cafes in Paris''" "''CSV''" no_listings]
    o
  have "no_listings = no_listings \<or> setup_error empty_env = Some no_listings
         \<or> (\<exists>j. scroll_error empty_env j = Some no_listings)
         \<or> snapshot_error empty_env = Some no_listings
         \<or> browser_close_error empty_env = Some no_listings
         \<or> (\<exists>records. export empty_env ''CSV'' ''cafes in Paris'' records = Inl no_listings)"
    by blast
  with p r o show ?thesis by simp
qed

text \<open>
  C10 as stated fails in "which then leads to the fatal zero-listings error": the count
  of line 146 and the snapshot of line 153 are two queries of the live page. When the
  first count is 0 and anchors appear before the snapshot, the run extracts and exports
  them; when the page stays empty and closing the browser raises, the exception of
  \<open>browser.close()\<close> leaves the pipeline instead.
\<close>

theorem zero_count_then_late_anchors:
  "anchors_after late_env 1 = []
   \<and> scroll_loop late_env 10 max_scroll_loops 0 0 = Inr (Stalled, 1)
   \<and> scrape_businesses_core id late_env ''shops in York'' 10 ''CSV''
       = \<lparr>outcome = Inr ''GMaps_Data/out.csv'', exported = Some shop_records,
          printed_lines = []\<rparr>
   \<and> anchors_after close_fails_env 1 = []
   \<and> scroll_loop close_fails_env 10 max_scroll_loops 0 0 = Inr (Stalled, 1)
   \<and> outcome (scrape_businesses_core id close_fails_env ''shops in York'' 10 ''CSV'')
       = Inl (OtherException ''Browser has been closed'')
   \<and> OtherException ''Browser has been closed'' \<noteq> no_listings"
  by (simp add: scrape_businesses_core_def raise_exn_def extractor_defs regex_defs strip_defs
      dedup_defs late_env_def close_fails_env_def empty_env_def env_defs max_scroll_loops_def
      eval_nat_numeral slice_to_def parse_query_def py_split.simps shop_records_def
      no_listings_def)

text \<open>
  C10, amended: the previous count starts at 0, so when the first iteration counts 0
  anchors and the requested total is positive, the loop ends in that iteration through
  the stall check. The run then ends with the "no listings found" error, with nothing
  exported, when the snapshot taken after the loop is empty as well and neither the
  snapshot nor closing the browser raises.
\<close>

theorem zero_first_count_stalls:
  assumes "scroll_error env 1 = None" and "anchors_after env 1 = []" and "0 < total_n"
  shows "scroll_loop env total_n max_scroll_loops 0 0 = Inr (Stalled, 1)
         \<and> (setup_error env = None \<and> snapshot_error env = None
              \<and> snapshot_anchors env 1 = [] \<and> browser_close_error env = None
            \<longrightarrow> scrape_businesses_core h env query total_n filetype
                  = \<lparr>outcome = Inl no_listings, exported = None, printed_lines = []\<rparr>)"
proof -
  have l: "scroll_loop env total_n max_scroll_loops 0 0 = Inr (Stalled, 1)"
    using assms by (simp add: max_scroll_loops_def eval_nat_numeral)
  then show ?thesis
    by (simp add: scrape_businesses_core_def raise_exn_def split: prod.splits)
qed

text \<open>
  A page without anchors and a requested total of 10.
\<close>

theorem zero_first_count_stalls_witness:
  "scroll_error empty_env 1 = None \<and> anchors_after empty_env 1 = [] \<and> (0::int) < 10
   \<and> setup_error empty_env = None \<and> snapshot_error empty_env = None
   \<and> snapshot_anchors empty_env 1 = [] \<and> browser_close_error empty_env = None
   \<and> scroll_loop empty_env 10 max_scroll_loops 0 0 = Inr (Stalled, 1)
   \<and> scrape_businesses_core id empty_env ''cafes in Paris'' 10 ''Excel''
       = \<lparr>outcome = Inl no_listings, exported = None, printed_lines = []\<rparr>"
proof -
  have p: "scroll_error empty_env 1 = None" "anchors_after empty_env 1 = []" "(0::int) < 10"
    by (simp_all add: empty_env_def env_defs)
  have q: "setup_error empty_env = None \<and> snapshot_error empty_env = None
      \<and> snapshot_anchors empty_env 1 = [] \<and> browser_close_error empty_env = None"
    by (simp add: empty_env_def env_defs)
  from zero_first_count_stalls[OF p, of id "''cafes in Paris''" "''Excel''"] p q
  show ?thesis by simp
qed

text \<open>
  C9: when a listing raises, the BusinessList after the loop is the same as if that
  listing had not been in the sequence, the exception is printed with the listing's
  position counted from 1, and every later listing that yields a record has that
  record's hash among the seen ones (it was added, or dropped as a duplicate). The run
  itself goes on to the export and returns what the export returns.
\<close>

theorem listing_failure_isolated:
  assumes "extract_listing env cat loc x = Inl e"
  shows "fst (process_listings h env cat loc 1 (pre @ x # post) (new_business_list, []))
           = fst (process_listings h env cat loc 1 (pre @ post) (new_business_list, []))
     \<and> (length pre + 1, e)
           \<in> set (snd (process_listings h env cat loc 1 (pre @ x # post) (new_business_list, [])))
     \<and> (\<forall>y\<in>set post. \<forall>b. extract_listing env cat loc y = Inr b \<longrightarrow>
           business_hash h b \<in> seen_businesses
             (fst (process_listings h env cat loc 1 (pre @ x # post) (new_business_list, []))))
     \<and> (setup_error env = None
          \<and> scroll_loop env total_n max_scroll_loops 0 0 = Inr (how, k)
          \<and> snapshot_error env = None \<and> browser_close_error env = None
          \<and> slice_to total_n (map (parent env) (snapshot_anchors env k)) = pre @ x # post
          \<and> parse_query query = (cat, loc)
        \<longrightarrow> outcome (scrape_businesses_core h env query total_n filetype)
              = export env filetype query
                  (business_list
                     (fst (process_listings h env cat loc 1 (pre @ post) (new_business_list, []))))
          \<and> (length pre + 1, e)
               \<in> set (printed_lines (scrape_businesses_core h env query total_n filetype)))"
proof -
  let ?run = "process_listings h env cat loc 1 (pre @ x # post) (new_business_list, [])"
  obtain bl pr where mid: "process_listings h env cat loc 1 pre (new_business_list, []) = (bl, pr)"
    by (cases "process_listings h env cat loc 1 pre (new_business_list, [])")
  have full: "?run
      = process_listings h env cat loc (Suc (Suc (length pre))) post (bl, pr @ [(Suc (length pre), e)])"
    using assms mid by (simp add: process_listings_append)
  have without: "process_listings h env cat loc 1 (pre @ post) (new_business_list, [])
      = process_listings h env cat loc (Suc (length pre)) post (bl, pr)"
    using mid by (simp add: process_listings_append)
  have same: "fst ?run
           = fst (process_listings h env cat loc 1 (pre @ post) (new_business_list, []))"
    unfolding full without by (rule process_listings_fst)
  have logged: "(length pre + 1, e) \<in> set (snd ?run)"
    unfolding full
    using process_listings_log_grows[of "pr @ [(Suc (length pre), e)]" h env cat loc
        "Suc (Suc (length pre))" post bl]
    by auto
  have later: "\<forall>y\<in>set post. \<forall>b. extract_listing env cat loc y = Inr b \<longrightarrow>
           business_hash h b \<in> seen_businesses (fst ?run)"
    unfolding full by (auto intro: process_listings_success_seen)
  have whole: "outcome (scrape_businesses_core h env query total_n filetype)
              = export env filetype query
                  (business_list
                     (fst (process_listings h env cat loc 1 (pre @ post) (new_business_list, []))))
          \<and> (length pre + 1, e)
               \<in> set (printed_lines (scrape_businesses_core h env query total_n filetype))"
    if ok: "setup_error env = None
          \<and> scroll_loop env total_n max_scroll_loops 0 0 = Inr (how, k)
          \<and> snapshot_error env = None \<and> browser_close_error env = None
          \<and> slice_to total_n (map (parent env) (snapshot_anchors env k)) = pre @ x # post
          \<and> parse_query query = (cat, loc)"
  proof -
    from ok have "slice_to total_n (map (parent env) (snapshot_anchors env k)) \<noteq> []" by simp
    then have ne: "snapshot_anchors env k \<noteq> []" by (auto simp: slice_to_def)
    from core_reaches_export[of env total_n how k h query filetype] ok ne same logged
    show ?thesis by simp
  qed
  from same logged later whole show ?thesis by blast
qed

text \<open>
  Three listings, the click on the second one raises: the records of the first and the
  third are exported and the exception is printed with index 2.
\<close>

theorem listing_failure_isolated_witness:
  "extract_listing flaky_env ''shops'' ''York'' 1 = Inl (OtherException ''click intercepted'')
   \<and> scroll_loop flaky_env 10 max_scroll_loops 0 0 = Inr (Stalled, 2)
   \<and> slice_to 10 (map (parent flaky_env) (snapshot_anchors flaky_env 2)) = [0] @ 1 # [2]
   \<and> parse_query ''shops in York'' = (''shops'', ''York'')
   \<and> fst (process_listings id flaky_env ''shops'' ''York'' 1 [0, 1, 2] (new_business_list, []))
       = fst (process_listings id flaky_env ''shops'' ''York'' 1 [0, 2] (new_business_list, []))
   \<and> (2, OtherException ''click intercepted'')
       \<in> set (printed_lines (scrape_businesses_core id flaky_env ''shops in York'' 10 ''CSV''))
   \<and> outcome (scrape_businesses_core id flaky_env ''shops in York'' 10 ''CSV'')
       = Inr ''GMaps_Data/out.csv''
   \<and> map name (business_list
        (fst (process_listings id flaky_env ''shops'' ''York'' 1 [0, 1, 2] (new_business_list, []))))
       = [Some ''Shop A'', Some ''Shop C'']"
proof -
  have f: "extract_listing flaky_env ''shops'' ''York'' 1 = Inl (OtherException ''click intercepted'')"
    by (simp add: extract_listing_def flaky_env_def env_defs)
  have ok: "setup_error flaky_env = None
      \<and> scroll_loop flaky_env 10 max_scroll_loops 0 0 = Inr (Stalled, 2)
      \<and> snapshot_error flaky_env = None \<and> browser_close_error flaky_env = None
      \<and> slice_to 10 (map (parent flaky_env) (snapshot_anchors flaky_env 2)) = [0] @ 1 # [2]
      \<and> parse_query ''shops in York'' = (''shops'', ''York'')"
    by (simp add: flaky_env_def env_defs max_scroll_loops_def eval_nat_numeral slice_to_def
        parse_query_def py_split.simps strip_defs)
  have ex: "export flaky_env ''CSV'' ''shops in York''
      (business_list (fst (process_listings id flaky_env ''shops'' ''York'' 1 ([0] @ [2])
         (new_business_list, [])))) = Inr ''GMaps_Data/out.csv''"
    by (simp add: flaky_env_def env_defs)
  have names: "map name (business_list
        (fst (process_listings id flaky_env ''shops'' ''York'' 1 [0, 2] (new_business_list, []))))
       = [Some ''Shop A'', Some ''Shop C'']"
    by (simp add: extractor_defs regex_defs strip_defs dedup_defs flaky_env_def env_defs)
  from listing_failure_isolated[OF f, of id "[0]" "[2]" 10 Stalled 2 "''shops in York''" "''CSV''"]
    ok ex names f
  show ?thesis by (simp del: process_listings.simps add: numeral_2_eq_2)
qed




end
